theory Spec2Isabelle
  imports Main "HOL-Library.Sublist" "HOL-Library.AList"
begin

section \<open>Python strings\<close>

text \<open>
  A Python \<open>str\<close> is modelled as a \<open>string\<close>, a list of characters. The operations
  below are the ones the cloner calls on strings: \<open>s.startswith(p)\<close>, \<open>s.endswith(p)\<close>,
  \<open>p in s\<close>, \<open>s.split(c)[0]\<close> and the decimal rendering of an integer in an f-string.
\<close>

definition startswith :: "string \<Rightarrow> string \<Rightarrow> bool" where
  "startswith s p = prefix p s"

definition endswith :: "string \<Rightarrow> string \<Rightarrow> bool" where
  "endswith s p = suffix p s"

definition contains :: "string \<Rightarrow> string \<Rightarrow> bool" where
  "contains s p = sublist p s"

definition before_first :: "char \<Rightarrow> string \<Rightarrow> string" where
  "before_first c s = takeWhile (\<lambda>x. x \<noteq> c) s"

function int_digits :: "int \<Rightarrow> string" where
  "int_digits i =
     (if i < 10 then [char_of (48 + i)] else int_digits (i div 10) @ [char_of (48 + i mod 10)])"
  by pat_completeness auto
termination
  by (relation "measure nat") auto

definition str_int :: "int \<Rightarrow> string" where
  "str_int i = (if i < 0 then CHR ''-'' # int_digits (- i) else int_digits i)"

definition str_nat :: "nat \<Rightarrow> string" where
  "str_nat n = int_digits (int n)"

section \<open>The fetcher: \<open>download_manager.py\<close>\<close>

text \<open>
  A local path is the list of its components. The configuration keeps the fields the fetcher
  and the controller read. \<open>max_retries\<close> is a natural number: a negative retry count
  makes \<open>range(max_retries + 1)\<close> empty and is not modelled.
\<close>

type_synonym path = "string list"

record config =
  max_retries :: nat
  overwrite_existing :: bool
  max_concurrent_downloads :: nat

record download_result =
  url :: string
  success :: bool
  local_path :: "path option"
  error :: "string option"
  file_size :: nat
  content_type :: "string option"

record download_stats =
  total_files :: nat
  downloaded_files :: nat
  failed_files :: nat
  total_bytes :: nat
  errors :: "string list"

definition add_success :: "nat \<Rightarrow> download_stats \<Rightarrow> download_stats" where
  "add_success sz s = s\<lparr>downloaded_files := downloaded_files s + 1, total_bytes := total_bytes s + sz\<rparr>"

definition add_failure :: "string \<Rightarrow> download_stats \<Rightarrow> download_stats" where
  "add_failure e s = s\<lparr>failed_files := failed_files s + 1, errors := errors s @ [e]\<rparr>"

text \<open>
  The network and the machine are the environment. A request either times out, raises
  another exception (with its message), or yields a response. The \<open>content-length\<close> header
  is absent (or empty), holds an integer, or holds text on which \<open>int()\<close> raises
  \<open>ValueError\<close> with the given message. The body is the list of the lengths of the chunks
  that \<open>iter_chunked\<close> yields; \<open>aborted\<close> says that the stream raises after the last
  of them. \<open>http_get n u\<close> is the outcome of the request to \<open>u\<close> made after \<open>n\<close> earlier
  requests. \<open>free_disk\<close> is \<open>None\<close> when \<open>shutil.disk_usage\<close> raises.
\<close>

datatype declared = NoLength | Length int | BadLength string

record response =
  status :: nat
  reason :: string
  declared_length :: declared
  mime :: string
  chunks :: "nat list"
  aborted :: "string option"

datatype event = Timeout | Raises string | Response response

record env =
  http_get :: "nat \<Rightarrow> string \<Rightarrow> event"
  url_to_path :: "string \<Rightarrow> path"
  should_download_file :: "string \<Rightarrow> int option \<Rightarrow> bool"
  available_memory :: int
  free_disk :: "int option"

text \<open>
  The world is what the fetcher changes: the size of each file on disk, and the log of the
  URLs requested so far.
\<close>

record world =
  files :: "path \<rightharpoonup> nat"
  requests :: "string list"

text \<open>
  \<open>check_disk_space\<close>: \<open>free_bytes > required_bytes * 1.2\<close>, and \<open>True\<close> when the free space
  cannot be read. The comparison is modelled in exact arithmetic
  (\<open>free > required * 6 / 5\<close>), not in floating point.
\<close>

definition check_disk_space :: "env \<Rightarrow> int \<Rightarrow> bool" where
  "check_disk_space e required_bytes =
     (case free_disk e of None \<Rightarrow> True | Some free_bytes \<Rightarrow> 5 * free_bytes > 6 * required_bytes)"

definition failed :: "string \<Rightarrow> string \<Rightarrow> download_result" where
  "failed u msg = \<lparr>url = u, success = False, local_path = None, error = Some msg,
                   file_size = 0, content_type = None\<rparr>"

text \<open>
  One pass through the body of the \<open>for attempt in range(max_retries + 1)\<close> loop of
  \<open>_download_single_url\<close>. It ends in one of three ways: the function returns a result;
  the function returns the result of calling itself on an alternate URL; or an error
  message is set and the code reaches \<open>if attempt < max_retries: sleep; continue\<close>
  followed by \<open>return DownloadResult(success=False, error=error_msg)\<close>.
\<close>

datatype outcome = Done download_result | Alternate string | Retry string

definition http_error :: "response \<Rightarrow> string" where
  "http_error r = ''HTTP '' @ str_nat (status r) @ '': '' @ reason r"

definition truthy :: "int option \<Rightarrow> bool" where
  "truthy x = (case x of None \<Rightarrow> False | Some n \<Rightarrow> n \<noteq> 0)"

definition on_response :: "config \<Rightarrow> env \<Rightarrow> string \<Rightarrow> nat \<Rightarrow> path \<Rightarrow> response \<Rightarrow> int option \<Rightarrow> world
    \<Rightarrow> outcome \<times> world" where
  "on_response cfg e u attempt lp r fsz w =
     (if \<not> should_download_file e u fsz then
        (Done (failed u ''File filtered by configuration''), w)
      else if status r \<ge> 400 then
        (if status r = 404 \<and> contains u ''?'' \<and> attempt = 0 then
           (Alternate (before_first CHR ''?'' u), w)
         else if status r = 404 \<and> endswith u ''/'' \<and> attempt = 1 then
           (Alternate (u @ ''index.html''), w)
         else (Retry (http_error r), w))
      else if truthy fsz \<and> the fsz > 100 * 1024 * 1024 \<and> 10 * the fsz > available_memory e then
        (Done (failed u (''File too large for available memory: '' @ str_int (the fsz) @ '' bytes'')), w)
      else if truthy fsz \<and> \<not> check_disk_space e (the fsz) then
        (Done (failed u ''Insufficient disk space''), w)
      else
        (let downloaded_size = sum_list (chunks r);
             w' = w\<lparr>files := (files w)(lp \<mapsto> downloaded_size)\<rparr>
         in case aborted r of
              Some msg \<Rightarrow> (Retry (''Download error: '' @ msg), w')
            | None \<Rightarrow>
               if downloaded_size = 0 then (Retry ''Downloaded file is empty'', w')
               else if truthy fsz \<and> \<bar>int downloaded_size - the fsz\<bar> > 1024 then
                 (Retry (''Size mismatch: expected '' @ str_int (the fsz) @ '', got ''
                           @ str_nat downloaded_size), w')
               else
                 (Done \<lparr>url = u, success = True, local_path = Some lp, error = None,
                         file_size = downloaded_size, content_type = Some (mime r)\<rparr>, w')))"

definition existing_file :: "config \<Rightarrow> world \<Rightarrow> path \<Rightarrow> nat option" where
  "existing_file cfg w lp = (if overwrite_existing cfg then None else files w lp)"

definition request_once :: "config \<Rightarrow> env \<Rightarrow> string \<Rightarrow> nat \<Rightarrow> path \<Rightarrow> world \<Rightarrow> outcome \<times> world" where
  "request_once cfg e u attempt lp w =
     (let w1 = w\<lparr>requests := requests w @ [u]\<rparr> in
      case http_get e (length (requests w)) u of
        Timeout \<Rightarrow> (Retry (''Download timeout (attempt '' @ str_nat (attempt + 1) @ '')''), w1)
      | Raises msg \<Rightarrow> (Retry (''Download error: '' @ msg), w1)
      | Response r \<Rightarrow>
         (case declared_length r of
            BadLength msg \<Rightarrow> (Retry (''Download error: '' @ msg), w1)
          | NoLength \<Rightarrow> on_response cfg e u attempt lp r None w1
          | Length n \<Rightarrow> on_response cfg e u attempt lp r (Some n) w1))"

definition attempt_once :: "config \<Rightarrow> env \<Rightarrow> string \<Rightarrow> nat \<Rightarrow> world \<Rightarrow> outcome \<times> world" where
  "attempt_once cfg e u attempt w =
     (let lp = url_to_path e u in
      case existing_file cfg w lp of
        None \<Rightarrow> request_once cfg e u attempt lp w
      | Some sz \<Rightarrow>
          if sz > 0 then
            (Done \<lparr>url = u, success = True, local_path = Some lp, error = None,
                    file_size = sz, content_type = None\<rparr>, w)
          else request_once cfg e u attempt lp w)"

text \<open>
  The alternate URL of a 404 is strictly simpler than the URL it replaces: stripping the query
  removes the \<open>?\<close>, appending \<open>index.html\<close> removes the final slash. \<open>alt_rank\<close> is
  the measure of that.
\<close>

definition alt_rank :: "string \<Rightarrow> nat" where
  "alt_rank u = (if CHR ''?'' \<in> set u then 2 else 0) + (if endswith u ''/'' then 1 else 0)"

lemma sublist_single: "sublist [c] s \<longleftrightarrow> c \<in> set s"
proof
  assume "sublist [c] s"
  then obtain ps ss where "s = ps @ [c] @ ss" by (auto simp: sublist_def)
  then show "c \<in> set s" by simp
next
  assume "c \<in> set s"
  then obtain ps ss where "s = ps @ c # ss" by (meson split_list)
  then have "s = ps @ [c] @ ss" by simp
  then show "sublist [c] s" unfolding sublist_def by blast
qed

lemma alt_rank_strip_query:
  assumes "contains u ''?''"
  shows "alt_rank (before_first CHR ''?'' u) < alt_rank u"
proof -
  have in_u: "CHR ''?'' \<in> set u"
    using assms by (simp add: contains_def sublist_single)
  have "CHR ''?'' \<notin> set (takeWhile (\<lambda>x. x \<noteq> CHR ''?'') u)"
    by (auto dest: set_takeWhileD)
  then show ?thesis
    using in_u by (simp add: alt_rank_def before_first_def)
qed

lemma alt_rank_index:
  assumes "endswith u ''/''"
  shows "alt_rank (u @ ''index.html'') < alt_rank u"
proof -
  have "\<not> endswith (u @ ''index.html'') ''/''"
    by (simp add: endswith_def suffix_def)
  then show ?thesis
    using assms by (simp add: alt_rank_def)
qed

lemma on_response_alternate:
  assumes "on_response cfg e u attempt lp r fsz w = (Alternate u', w')"
  shows "alt_rank u' < alt_rank u"
  using assms alt_rank_strip_query alt_rank_index
  by (auto simp: on_response_def Let_def split: if_splits option.splits)

lemma attempt_once_alternate:
  assumes "attempt_once cfg e u attempt w = (Alternate u', w')"
  shows "alt_rank u' < alt_rank u"
  using assms on_response_alternate
  by (auto simp: attempt_once_def request_once_def Let_def
           split: option.splits if_splits event.splits declared.splits)

text \<open>
  \<open>_download_single_url\<close>: the loop over the attempts, entered at attempt \<open>0\<close>. The
  recursive call on an alternate URL starts its own loop at attempt \<open>0\<close>.
\<close>

function download_from :: "config \<Rightarrow> env \<Rightarrow> string \<Rightarrow> nat \<Rightarrow> world \<Rightarrow> download_result \<times> world" where
  "download_from cfg e u attempt w =
     (if attempt > max_retries cfg then (failed u ''Max retries exceeded'', w)
      else case attempt_once cfg e u attempt w of
        (Done r, w') \<Rightarrow> (r, w')
      | (Alternate u', w') \<Rightarrow> download_from cfg e u' 0 w'
      | (Retry msg, w') \<Rightarrow>
          if attempt < max_retries cfg then download_from cfg e u (attempt + 1) w'
          else (failed u msg, w'))"
  by pat_completeness auto
termination
  by (relation "measures [\<lambda>(cfg, e, u, attempt, w). alt_rank u,
                           \<lambda>(cfg, e, u, attempt, w). Suc (max_retries cfg) - attempt]")
     (auto dest: attempt_once_alternate [OF sym])

definition download_single_url :: "config \<Rightarrow> env \<Rightarrow> string \<Rightarrow> world \<Rightarrow> download_result \<times> world" where
  "download_single_url cfg e u w = download_from cfg e u 0 w"

text \<open>
  Three notions used to state what the fetcher does: the response passes the configuration
  filter (and its \<open>content-length\<close> parses); there is no non-empty file to reuse at the mapped
  path; and the world after \<open>k\<close> more requests to \<open>u\<close>.
\<close>

definition passes_filter :: "env \<Rightarrow> string \<Rightarrow> response \<Rightarrow> bool" where
  "passes_filter e u r =
     (case declared_length r of
        NoLength \<Rightarrow> should_download_file e u None
      | Length n \<Rightarrow> should_download_file e u (Some n)
      | BadLength msg \<Rightarrow> False)"

definition nothing_to_reuse :: "config \<Rightarrow> env \<Rightarrow> string \<Rightarrow> world \<Rightarrow> bool" where
  "nothing_to_reuse cfg e u w = (existing_file cfg w (url_to_path e u) \<in> {None, Some 0})"

definition request :: "string \<Rightarrow> nat \<Rightarrow> world \<Rightarrow> world" where
  "request u k w = w\<lparr>requests := requests w @ replicate k u\<rparr>"

text \<open>
  The download manager remembers which URLs succeeded and which failed, and keeps the
  statistics. A Python set of URLs that the code iterates over is a list here, in iteration
  order; \<open>new_urls\<close> is \<open>urls - self.downloaded_urls - self.failed_urls\<close>.
\<close>

record manager =
  downloaded_urls :: "string set"
  failed_urls :: "string set"
  stats :: download_stats

definition new_urls :: "manager \<Rightarrow> string list \<Rightarrow> string list" where
  "new_urls m urls = remdups [u \<leftarrow> urls. u \<notin> downloaded_urls m \<and> u \<notin> failed_urls m]"

text \<open>
  \<open>asyncio.gather\<close> runs the tasks concurrently; the model runs them one after the other,
  in the order of creation.
\<close>

fun run_tasks :: "config \<Rightarrow> env \<Rightarrow> string list \<Rightarrow> world \<Rightarrow> (string \<times> download_result) list \<times> world" where
  "run_tasks cfg e [] w = ([], w)"
| "run_tasks cfg e (u # us) w =
     (case download_single_url cfg e u w of (r, w') \<Rightarrow>
        (case run_tasks cfg e us w' of (rs, w'') \<Rightarrow> ((u, r) # rs, w'')))"

definition error_text :: "download_result \<Rightarrow> string" where
  "error_text r = (case error r of None \<Rightarrow> ''None'' | Some msg \<Rightarrow> msg)"

fun record_results :: "(string \<times> download_result) list \<Rightarrow> manager \<Rightarrow> manager" where
  "record_results [] m = m"
| "record_results ((u, r) # rs) m =
     record_results rs
       (if success r
        then m\<lparr>downloaded_urls := insert u (downloaded_urls m),
               stats := add_success (file_size r) (stats m)\<rparr>
        else m\<lparr>failed_urls := insert u (failed_urls m),
               stats := add_failure (u @ '': '' @ error_text r) (stats m)\<rparr>)"

definition download_urls :: "config \<Rightarrow> env \<Rightarrow> string list \<Rightarrow> manager \<Rightarrow> world
    \<Rightarrow> (string \<times> download_result) list \<times> manager \<times> world" where
  "download_urls cfg e urls m w =
     (let m1 = m\<lparr>stats := (stats m)\<lparr>total_files := length (remdups urls)\<rparr>\<rparr>;
          new = new_urls m urls
      in if new = [] then ([], m1, w)
         else if \<not> check_disk_space e (int (length new) * 1024 * 1024) then ([], m1, w)
         else (case run_tasks cfg e new w of (rs, w') \<Rightarrow> (rs, record_results rs m1, w')))"

section \<open>Example environments\<close>

text \<open>
  Concrete inputs on which the model is run: the default configuration of \<open>config.py\<close>, a
  fresh manager, an empty output directory, and servers that answer every request alike.
\<close>

definition default_config :: config where
  "default_config = \<lparr>max_retries = 5, overwrite_existing = False, max_concurrent_downloads = 10\<rparr>"

definition fresh_manager :: manager where
  "fresh_manager = \<lparr>downloaded_urls = {}, failed_urls = {},
     stats = \<lparr>total_files = 0, downloaded_files = 0, failed_files = 0, total_bytes = 0, errors = []\<rparr>\<rparr>"

definition no_files :: world where
  "no_files = \<lparr>files = Map.empty, requests = []\<rparr>"

definition always :: "response \<Rightarrow> int option \<Rightarrow> env" where
  "always r free = \<lparr>http_get = (\<lambda>n u. Response r), url_to_path = (\<lambda>u. [u]),
     should_download_file = (\<lambda>u sz. True), available_memory = 1073741824, free_disk = free\<rparr>"

definition ok_page :: response where
  "ok_page = \<lparr>status = 200, reason = ''OK'', declared_length = NoLength, mime = ''text/css'',
     chunks = [120], aborted = None\<rparr>"

definition forbidden :: response where
  "forbidden = \<lparr>status = 403, reason = ''Forbidden'', declared_length = NoLength,
     mime = ''text/html'', chunks = [], aborted = None\<rparr>"

definition not_found :: response where
  "not_found = \<lparr>status = 404, reason = ''Not Found'', declared_length = NoLength,
     mime = ''text/html'', chunks = [], aborted = None\<rparr>"

definition truncated :: response where
  "truncated = \<lparr>status = 200, reason = ''OK'', declared_length = Length 5000,
     mime = ''image/png'', chunks = [100], aborted = None\<rparr>"

section \<open>The batch disk-space check\<close>

text \<open>
  C10. When the free space under the output directory is at most 1.2 times the estimate of
  1 MB (1048576 bytes) for each net-new URL of the batch, \<open>download_urls\<close> returns the empty
  result map. No request is made and no file is written (the world is unchanged), and the
  manager keeps its sets of downloaded and failed URLs, its failure count and its error list:
  only \<open>total_files\<close> is set, to the size of the batch, as it is on every call.
\<close>

theorem download_urls_disk_check_fails:
  assumes "free_disk e = Some free_bytes"
    and "5 * free_bytes \<le> 6 * (int (length (new_urls m urls)) * 1048576)"
  shows "download_urls cfg e urls m w =
           ([], m\<lparr>stats := (stats m)\<lparr>total_files := length (remdups urls)\<rparr>\<rparr>, w)"
  using assms by (simp add: download_urls_def check_disk_space_def Let_def)

theorem download_urls_disk_check_fails_witness:
  "free_disk (always ok_page (Some 1000000)) = Some 1000000
   \<and> 5 * (1000000::int) \<le> 6 * (int (length (new_urls fresh_manager [''http://ex.test/a.css''])) * 1048576)
   \<and> download_urls default_config (always ok_page (Some 1000000)) [''http://ex.test/a.css'']
        fresh_manager no_files =
      ([], fresh_manager\<lparr>stats := (stats fresh_manager)\<lparr>total_files := 1\<rparr>\<rparr>, no_files)"
proof -
  have h1: "free_disk (always ok_page (Some 1000000)) = Some 1000000"
    by (simp add: always_def)
  have h2: "5 * (1000000::int)
      \<le> 6 * (int (length (new_urls fresh_manager [''http://ex.test/a.css''])) * 1048576)"
    by (simp add: new_urls_def fresh_manager_def)
  show ?thesis
    using h1 h2 download_urls_disk_check_fails [OF h1 h2, of default_config no_files]
    by simp
qed

section \<open>HTTP errors and retries\<close>

lemma on_response_http_error:
  assumes "400 \<le> status r"
    and "should_download_file e u fsz"
    and "status r = 404 \<longrightarrow> \<not> (contains u ''?'' \<and> attempt = 0) \<and> \<not> (endswith u ''/'' \<and> attempt = 1)"
  shows "on_response cfg e u attempt lp r fsz w = (Retry (http_error r), w)"
  using assms unfolding on_response_def by auto

lemma on_response_alt_query:
  assumes "status r = 404" and "should_download_file e u fsz" and "contains u ''?''"
  shows "on_response cfg e u 0 lp r fsz w = (Alternate (before_first CHR ''?'' u), w)"
  using assms unfolding on_response_def by auto

lemma on_response_alt_index:
  assumes "status r = 404" and "should_download_file e u fsz" and "endswith u ''/''"
    and "attempt = 1" and "\<not> contains u ''?''"
  shows "on_response cfg e u attempt lp r fsz w = (Alternate (u @ ''index.html''), w)"
  using assms unfolding on_response_def by auto

lemma attempt_once_response:
  assumes get: "http_get e (length (requests w)) u = Response r"
    and pf: "passes_filter e u r"
    and nr: "nothing_to_reuse cfg e u w"
    and on: "\<And>fsz. should_download_file e u fsz \<Longrightarrow>
               on_response cfg e u attempt (url_to_path e u) r fsz (request u 1 w) = res"
  shows "attempt_once cfg e u attempt w = res"
proof -
  have ex: "existing_file cfg w (url_to_path e u) = None \<or> existing_file cfg w (url_to_path e u) = Some 0"
    using nr by (simp add: nothing_to_reuse_def)
  have w1: "w\<lparr>requests := requests w @ [u]\<rparr> = request u 1 w"
    by (simp add: request_def)
  show ?thesis
  proof (cases "declared_length r")
    case NoLength
    then have "should_download_file e u None" using pf by (simp add: passes_filter_def)
    then have "on_response cfg e u attempt (url_to_path e u) r None (request u 1 w) = res"
      by (rule on)
    then show ?thesis
      using ex get NoLength w1 by (auto simp: attempt_once_def request_once_def Let_def)
  next
    case (Length n)
    then have "should_download_file e u (Some n)" using pf by (simp add: passes_filter_def)
    then have "on_response cfg e u attempt (url_to_path e u) r (Some n) (request u 1 w) = res"
      by (rule on)
    then show ?thesis
      using ex get Length w1 by (auto simp: attempt_once_def request_once_def Let_def)
  next
    case (BadLength msg)
    then show ?thesis using pf by (simp add: passes_filter_def)
  qed
qed

lemma attempt_once_http_error:
  assumes "http_get e (length (requests w)) u = Response r"
    and "400 \<le> status r"
    and "passes_filter e u r"
    and "nothing_to_reuse cfg e u w"
    and "status r = 404 \<longrightarrow> \<not> (contains u ''?'' \<and> attempt = 0) \<and> \<not> (endswith u ''/'' \<and> attempt = 1)"
  shows "attempt_once cfg e u attempt w = (Retry (http_error r), request u 1 w)"
  using assms(1,3,4)
proof (rule attempt_once_response)
  fix fsz assume "should_download_file e u fsz"
  then show "on_response cfg e u attempt (url_to_path e u) r fsz (request u 1 w)
      = (Retry (http_error r), request u 1 w)"
    using assms(2,5) by (simp add: on_response_http_error)
qed

lemma nothing_to_reuse_request:
  "nothing_to_reuse cfg e u (request v k w) = nothing_to_reuse cfg e u w"
  by (simp add: nothing_to_reuse_def request_def existing_file_def)

lemma request_request: "request u j (request u k w) = request u (k + j) w"
  by (simp add: request_def replicate_add)

lemma download_from_alternate:
  assumes "attempt \<le> max_retries cfg" and "attempt_once cfg e u attempt w = (Alternate u', w')"
  shows "download_from cfg e u attempt w = download_from cfg e u' 0 w'"
proof -
  have "download_from cfg e u attempt w =
     (if attempt > max_retries cfg then (failed u ''Max retries exceeded'', w)
      else case attempt_once cfg e u attempt w of
        (Done r, w') \<Rightarrow> (r, w')
      | (Alternate u', w') \<Rightarrow> download_from cfg e u' 0 w'
      | (Retry msg, w') \<Rightarrow>
          if attempt < max_retries cfg then download_from cfg e u (attempt + 1) w'
          else (failed u msg, w'))"
    by (rule download_from.simps)
  then show ?thesis using assms by simp
qed

lemma download_from_retry:
  assumes "attempt < max_retries cfg" and "attempt_once cfg e u attempt w = (Retry msg, w')"
  shows "download_from cfg e u attempt w = download_from cfg e u (Suc attempt) w'"
proof -
  have "download_from cfg e u attempt w =
     (if attempt > max_retries cfg then (failed u ''Max retries exceeded'', w)
      else case attempt_once cfg e u attempt w of
        (Done r, w') \<Rightarrow> (r, w')
      | (Alternate u', w') \<Rightarrow> download_from cfg e u' 0 w'
      | (Retry msg, w') \<Rightarrow>
          if attempt < max_retries cfg then download_from cfg e u (attempt + 1) w'
          else (failed u msg, w'))"
    by (rule download_from.simps)
  then show ?thesis using assms by simp
qed

lemma download_from_give_up:
  assumes "attempt = max_retries cfg" and "attempt_once cfg e u attempt w = (Retry msg, w')"
  shows "download_from cfg e u attempt w = (failed u msg, w')"
proof -
  have "download_from cfg e u attempt w =
     (if attempt > max_retries cfg then (failed u ''Max retries exceeded'', w)
      else case attempt_once cfg e u attempt w of
        (Done r, w') \<Rightarrow> (r, w')
      | (Alternate u', w') \<Rightarrow> download_from cfg e u' 0 w'
      | (Retry msg, w') \<Rightarrow>
          if attempt < max_retries cfg then download_from cfg e u (attempt + 1) w'
          else (failed u msg, w'))"
    by (rule download_from.simps)
  then show ?thesis using assms by simp
qed

lemma download_from_done:
  assumes "attempt \<le> max_retries cfg" and "attempt_once cfg e u attempt w = (Done r, w')"
  shows "download_from cfg e u attempt w = (r, w')"
proof -
  have "download_from cfg e u attempt w =
     (if attempt > max_retries cfg then (failed u ''Max retries exceeded'', w)
      else case attempt_once cfg e u attempt w of
        (Done r, w') \<Rightarrow> (r, w')
      | (Alternate u', w') \<Rightarrow> download_from cfg e u' 0 w'
      | (Retry msg, w') \<Rightarrow>
          if attempt < max_retries cfg then download_from cfg e u (attempt + 1) w'
          else (failed u msg, w'))"
    by (rule download_from.simps)
  then show ?thesis using assms by simp
qed

lemma download_from_http_error:
  assumes "\<forall>n. http_get e n u = Response r"
    and "400 \<le> status r"
    and "passes_filter e u r"
    and "nothing_to_reuse cfg e u w"
    and "status r = 404 \<longrightarrow> \<not> contains u ''?'' \<and> \<not> endswith u ''/''"
    and "attempt \<le> max_retries cfg"
  shows "download_from cfg e u attempt w =
           (failed u (http_error r), request u (Suc (max_retries cfg) - attempt) w)"
  using assms(4,6)
proof (induction "max_retries cfg - attempt" arbitrary: attempt w)
  case 0
  then have eq: "attempt = max_retries cfg" by simp
  have "attempt_once cfg e u attempt w = (Retry (http_error r), request u 1 w)"
    using assms(1,2,3,5) "0.prems"(1) by (intro attempt_once_http_error) auto
  then show ?case
    using eq by (simp add: download_from_give_up)
next
  case (Suc k)
  then have lt: "attempt < max_retries cfg" by simp
  have once: "attempt_once cfg e u attempt w = (Retry (http_error r), request u 1 w)"
    using assms(1,2,3,5) Suc.prems(1) by (intro attempt_once_http_error) auto
  have "download_from cfg e u (Suc attempt) (request u 1 w) =
          (failed u (http_error r), request u (Suc (max_retries cfg) - Suc attempt) (request u 1 w))"
    using Suc.hyps(2) lt Suc.prems(1) by (intro Suc.hyps(1)) (auto simp: nothing_to_reuse_request)
  moreover have "1 + (Suc (max_retries cfg) - Suc attempt) = Suc (max_retries cfg) - attempt"
    using lt by arith
  ultimately show ?case
    using download_from_retry [OF lt once] by (simp add: request_request)
qed

lemma download_from_alt_query:
  assumes "\<forall>n. http_get e n u = Response r"
    and "status r = 404"
    and "passes_filter e u r"
    and "nothing_to_reuse cfg e u w"
    and "contains u ''?''"
  shows "download_from cfg e u 0 w = download_from cfg e (before_first CHR ''?'' u) 0 (request u 1 w)"
proof -
  have "attempt_once cfg e u 0 w = (Alternate (before_first CHR ''?'' u), request u 1 w)"
    using assms(1,3,4)
  proof (intro attempt_once_response)
    fix fsz assume "should_download_file e u fsz"
    then show "on_response cfg e u 0 (url_to_path e u) r fsz (request u 1 w)
        = (Alternate (before_first CHR ''?'' u), request u 1 w)"
      using assms(2,5) by (simp add: on_response_alt_query)
  qed auto
  then show ?thesis
    by (intro download_from_alternate) auto
qed

lemma download_from_alt_index:
  assumes "\<forall>n. http_get e n u = Response r"
    and "status r = 404"
    and "passes_filter e u r"
    and "nothing_to_reuse cfg e u w"
    and "\<not> contains u ''?''" and "endswith u ''/''" and "0 < max_retries cfg"
  shows "download_from cfg e u 0 w = download_from cfg e (u @ ''index.html'') 0 (request u 2 w)"
proof -
  have two: "request u 1 (request u 1 w) = request u 2 w"
    by (simp add: request_def numeral_2_eq_2)
  have first: "attempt_once cfg e u 0 w = (Retry (http_error r), request u 1 w)"
    using assms(1,2,3,4,5) by (intro attempt_once_http_error) auto
  have "attempt_once cfg e u (Suc 0) (request u 1 w)
      = (Alternate (u @ ''index.html''), request u 1 (request u 1 w))"
  proof (rule attempt_once_response)
    show "http_get e (length (requests (request u 1 w))) u = Response r"
      using assms(1) by simp
    show "passes_filter e u r" by (rule assms(3))
    show "nothing_to_reuse cfg e u (request u 1 w)"
      using assms(4) by (simp add: nothing_to_reuse_request)
    fix fsz assume "should_download_file e u fsz"
    then show "on_response cfg e u (Suc 0) (url_to_path e u) r fsz (request u 1 (request u 1 w))
        = (Alternate (u @ ''index.html''), request u 1 (request u 1 w))"
      using assms(2,5,6) by (intro on_response_alt_index) auto
  qed
  then have second: "download_from cfg e u (Suc 0) (request u 1 w)
      = download_from cfg e (u @ ''index.html'') 0 (request u 2 w)"
    using assms(7) two by (simp add: download_from_alternate)
  show ?thesis
    using download_from_retry [OF assms(7) first] second by simp
qed

text \<open>
  C6, as the code has it. A response with status 400 or more, 404 and every other 4xx
  included, is not a permanent error: the URL is requested again until \<open>max_retries + 1\<close>
  requests have been made, and only then recorded failed with \<open>HTTP status: reason\<close>. A 404
  has two alternates on top of that: on the first attempt of a URL that contains \<open>?\<close> the
  fetcher hands over to the URL with the query stripped, and on the second attempt of a URL
  that ends in \<open>/\<close> it hands over to that URL followed by \<open>index.html\<close>; the alternate
  gets a full retry loop of its own.
\<close>

theorem http_errors_are_retried:
  assumes "\<forall>n. http_get e n u = Response r"
    and "400 \<le> status r"
    and "passes_filter e u r"
    and "nothing_to_reuse cfg e u w"
  shows "(status r \<noteq> 404 \<or> (\<not> contains u ''?'' \<and> \<not> endswith u ''/'') \<longrightarrow>
            download_single_url cfg e u w
              = (failed u (http_error r), request u (Suc (max_retries cfg)) w))
       \<and> (status r = 404 \<and> contains u ''?'' \<longrightarrow>
            download_single_url cfg e u w
              = download_single_url cfg e (before_first CHR ''?'' u) (request u 1 w))
       \<and> (status r = 404 \<and> \<not> contains u ''?'' \<and> endswith u ''/'' \<and> 0 < max_retries cfg \<longrightarrow>
            download_single_url cfg e u w
              = download_single_url cfg e (u @ ''index.html'') (request u 2 w))"
  using download_from_http_error [OF assms(1,2,3,4), of 0]
    download_from_alt_query [OF assms(1) _ assms(3,4)]
    download_from_alt_index [OF assms(1) _ assms(3,4)]
  by (auto simp: download_single_url_def)

theorem http_errors_are_retried_witness:
  "(\<forall>n. http_get (always forbidden None) n ''http://ex.test/a.png'' = Response forbidden)
   \<and> 400 \<le> status forbidden
   \<and> passes_filter (always forbidden None) ''http://ex.test/a.png'' forbidden
   \<and> nothing_to_reuse default_config (always forbidden None) ''http://ex.test/a.png'' no_files
   \<and> download_single_url default_config (always forbidden None) ''http://ex.test/a.png'' no_files
     = (failed ''http://ex.test/a.png'' ''HTTP 403: Forbidden'',
        no_files\<lparr>requests := replicate 6 ''http://ex.test/a.png''\<rparr>)"
proof -
  have h1: "\<forall>n. http_get (always forbidden None) n ''http://ex.test/a.png'' = Response forbidden"
    by (simp add: always_def)
  have h2: "400 \<le> status forbidden" by (simp add: forbidden_def)
  have h3: "passes_filter (always forbidden None) ''http://ex.test/a.png'' forbidden"
    by (simp add: passes_filter_def always_def forbidden_def)
  have h4: "nothing_to_reuse default_config (always forbidden None) ''http://ex.test/a.png'' no_files"
    by (simp add: nothing_to_reuse_def existing_file_def no_files_def default_config_def)
  have err: "http_error forbidden = ''HTTP 403: Forbidden''"
    by code_simp
  have six: "Suc (max_retries default_config) = 6" by (simp add: default_config_def)
  have "status forbidden \<noteq> 404" by (simp add: forbidden_def)
  then show ?thesis
    using h1 h2 h3 h4 http_errors_are_retried [OF h1 h2 h3 h4] err six
    by (simp add: request_def no_files_def)
qed

text \<open>
  The claim as stated fails: a URL answered with 403 every time is requested six times under
  the default configuration (one request and five retries), and a URL answered with 404 every
  time, with a query and a directory-like path, is replaced by two alternates in turn.
\<close>

theorem forbidden_is_retried:
  "requests (snd (download_single_url default_config (always forbidden None)
       ''http://ex.test/a.png'' no_files)) = replicate 6 ''http://ex.test/a.png''
   \<and> requests (snd (download_single_url default_config (always not_found None)
       ''http://ex.test/dir/?v=1'' no_files))
     = [''http://ex.test/dir/?v=1''] @ replicate 2 ''http://ex.test/dir/''
        @ replicate 6 ''http://ex.test/dir/index.html''"
  by code_simp

section \<open>Success and the bytes on disk\<close>

text \<open>
  C5 at a failing input. The server declares \<open>content-length: 5000\<close> and delivers 100 bytes.
  The first attempt writes the 100 bytes, finds the mismatch of 4900 bytes and retries; the
  second attempt finds a non-empty file at the mapped path and returns success without a
  request. The fetch reports success after a single request, with a file of 100 bytes.
\<close>

theorem truncated_download_reports_success:
  "success (fst (download_single_url default_config (always truncated None)
       ''http://ex.test/logo.png'' no_files))
   \<and> file_size (fst (download_single_url default_config (always truncated None)
       ''http://ex.test/logo.png'' no_files)) = 100
   \<and> requests (snd (download_single_url default_config (always truncated None)
       ''http://ex.test/logo.png'' no_files)) = [''http://ex.test/logo.png'']
   \<and> declared_length truncated = Length 5000"
  by code_simp

end
